theory Spec2Isabelle
  imports Complex_Main
begin

section \<open>JavaScript values\<close>

text \<open>
  The two servers (\<^verbatim>\<open>src/index.js\<close> and \<^verbatim>\<open>src/unnamed/part_000\<close>) handle values that come
  out of \<^verbatim>\<open>JSON.parse\<close>: of a request body (through \<^verbatim>\<open>express.json()\<close>) or of a file.
  A number is a finite double, read as the rational it denotes, or an infinity (the
  literal \<^verbatim>\<open>1e999\<close> parses to \<^verbatim>\<open>Infinity\<close>); \<^verbatim>\<open>NaN\<close> cannot come out of JSON, and
  \<^verbatim>\<open>-0\<close> is \<^verbatim>\<open>0\<close> for \<^verbatim>\<open>!\<close> and \<^verbatim>\<open>===\<close>, the only operations the code applies.
  A string is a list of characters; an object is the list of its own properties.
  \<^verbatim>\<open>undefined\<close> is not a JSON value: a value that may be undefined is a \<open>json option\<close>.
\<close>

datatype jsnum = Finite rat | PosInfinity | NegInfinity

datatype json =
    JNull
  | JBool bool
  | JNum jsnum
  | JStr string
  | JArr "json list"
  | JObj "(string \<times> json) list"

datatype jserror = TypeError | SyntaxError

text \<open>\<^verbatim>\<open>!v\<close> is false exactly on the truthy values.\<close>

fun truthy :: "json \<Rightarrow> bool" where
  "truthy JNull = False"
| "truthy (JBool b) = b"
| "truthy (JNum n) = (n \<noteq> Finite 0)"
| "truthy (JStr s) = (s \<noteq> [])"
| "truthy (JArr xs) = True"
| "truthy (JObj kvs) = True"

text \<open>\<^verbatim>\<open>!v\<close> for a value that may be undefined.\<close>

fun falsy :: "json option \<Rightarrow> bool" where
  "falsy None = True"
| "falsy (Some v) = (\<not> truthy v)"

text \<open>
  \<^verbatim>\<open>a === b\<close>. Primitives are compared by value. Objects and arrays are compared by
  identity, and the two sides of every \<^verbatim>\<open>===\<close> of the code come from different parses
  (a stored record and a request), so they are never the same object.
\<close>

fun strict_eq :: "json \<Rightarrow> json \<Rightarrow> bool" where
  "strict_eq JNull JNull = True"
| "strict_eq (JBool a) (JBool b) = (a = b)"
| "strict_eq (JNum a) (JNum b) = (a = b)"
| "strict_eq (JStr a) (JStr b) = (a = b)"
| "strict_eq _ _ = False"

fun strict_equal :: "json option \<Rightarrow> json option \<Rightarrow> bool" where
  "strict_equal None None = True"
| "strict_equal (Some a) (Some b) = strict_eq a b"
| "strict_equal _ _ = False"


text \<open>
  \<^verbatim>\<open>v.k\<close> for the property names the code reads (\<^verbatim>\<open>id\<close>, \<^verbatim>\<open>username\<close>, \<^verbatim>\<open>password\<close>):
  \<^verbatim>\<open>null.k\<close> throws a TypeError, an object yields its own property or undefined, and
  a string, number, boolean or array has no property of these names.
\<close>

fun get_member :: "json \<Rightarrow> string \<Rightarrow> jserror + json option" where
  "get_member JNull k = Inl TypeError"
| "get_member (JObj kvs) k = Inr (map_of kvs k)"
| "get_member _ k = Inr None"

text \<open>The same read where it cannot throw: the property of a value known not to be null.\<close>

fun property :: "string \<Rightarrow> json \<Rightarrow> json option" where
  "property k (JObj kvs) = map_of kvs k"
| "property k _ = None"

text \<open>
  \<^verbatim>\<open>xs.filter(f)\<close> and \<^verbatim>\<open>xs.find(f)\<close> with a callback that may throw: \<^verbatim>\<open>filter\<close> calls it on
  every element, \<^verbatim>\<open>find\<close> stops at the first element it accepts.
\<close>

fun js_filter :: "(json \<Rightarrow> jserror + bool) \<Rightarrow> json list \<Rightarrow> jserror + json list" where
  "js_filter f [] = Inr []"
| "js_filter f (x # xs) =
     (case f x of
        Inl e \<Rightarrow> Inl e
      | Inr b \<Rightarrow>
          (case js_filter f xs of
             Inl e \<Rightarrow> Inl e
           | Inr ys \<Rightarrow> Inr (if b then x # ys else ys)))"

fun js_find :: "(json \<Rightarrow> jserror + bool) \<Rightarrow> json list \<Rightarrow> jserror + json option" where
  "js_find f [] = Inr None"
| "js_find f (x # xs) =
     (case f x of
        Inl e \<Rightarrow> Inl e
      | Inr b \<Rightarrow> if b then Inr (Some x) else js_find f xs)"

text \<open>
  \<^verbatim>\<open>s.trim()\<close> removes white space and line terminators at both ends; among the
  characters below 256 these are tab, line feed, vertical tab, form feed, carriage
  return, space and the no-break space.
\<close>

definition js_whitespace :: "char \<Rightarrow> bool" where
  "js_whitespace c =
     (c \<in> set [CHR 0x09, CHR 0x0A, CHR 0x0B, CHR 0x0C, CHR 0x0D, CHR 0x20, CHR 0xA0])"

definition trim :: "string \<Rightarrow> string" where
  "trim s = rev (dropWhile js_whitespace (rev (dropWhile js_whitespace s)))"

definition startsWith :: "string \<Rightarrow> string \<Rightarrow> bool" where
  "startsWith s p = (take (length p) s = p)"

section \<open>The libraries, the files, requests and responses\<close>

text \<open>
  The code calls \<^verbatim>\<open>JSON.parse\<close>, \<^verbatim>\<open>JSON.stringify\<close>, \<^verbatim>\<open>jwt.verify\<close> and \<^verbatim>\<open>jwt.sign\<close>. They
  are not code of the repository, so they are parameters: every theorem holds for all
  of them. \<open>JSON_parse\<close> is \<open>None\<close> where \<^verbatim>\<open>JSON.parse\<close> throws its SyntaxError;
  \<open>jwt_verify\<close> is \<^verbatim>\<open>jwt.verify(token, JWT_SECRET)\<close> at the time of the request, \<open>None\<close>
  where it throws (bad signature, expired, malformed); \<open>jwt_sign sub username\<close> is
  \<^verbatim>\<open>jwt.sign({ sub, username }, JWT_SECRET, { expiresIn: "1h" })\<close>, taken as a function
  that returns a token.
\<close>

record env =
  JSON_parse :: "string \<Rightarrow> json option"
  JSON_stringify :: "json \<Rightarrow> string"
  jwt_verify :: "string \<Rightarrow> json option"
  jwt_sign :: "json option \<Rightarrow> json \<Rightarrow> string"

text \<open>
  The two files: absent, or present with a content. Every \<^verbatim>\<open>fs\<close> call on a present
  file succeeds (no permission or device errors).
\<close>

record files =
  TODOS_FILE :: "string option"
  USERS_FILE :: "string option"

text \<open>
  A request, as the handlers see it after \<^verbatim>\<open>express.json()\<close> and the router:
  the Authorization header if there is one, the own properties of the parsed body
  (\<^verbatim>\<open>{}\<close> when the request has none, as the body parser leaves \<^verbatim>\<open>req.body\<close>), and the
  \<^verbatim>\<open>:id\<close> of the path. A body that is not JSON never reaches a handler.
\<close>

record request =
  authorization :: "string option"
  body :: "(string \<times> json) list"
  params_id :: string

text \<open>
  A response: the status and the JSON sent, if any. \<open>internal_error\<close> is what Express
  answers when a handler throws: status 500, with a page that is not JSON.
\<close>

record response =
  status :: nat
  sent :: "json option"

definition respond :: "nat \<Rightarrow> json \<Rightarrow> response" where
  "respond code v = \<lparr>status = code, sent = Some v\<rparr>"

definition message :: "string \<Rightarrow> json" where
  "message m = JObj [(''message'', JStr m)]"

definition internal_error :: response where
  "internal_error = \<lparr>status = 500, sent = None\<rparr>"

section \<open>src/index.js\<close>

subsection \<open>The file helpers\<close>

text \<open>
  The \<^verbatim>\<open>try\<close> block of \<^verbatim>\<open>readTodos\<close>: an absent file is created as \<^verbatim>\<open>[]\<close>, a blank one
  reads as the empty array, and \<^verbatim>\<open>JSON.parse\<close> returns the value or throws. The
  \<^verbatim>\<open>catch\<close> block overwrites the file with \<^verbatim>\<open>[]\<close>; the \<^verbatim>\<open>try\<close> block has written
  nothing when it throws.
\<close>

definition readTodos_try :: "env \<Rightarrow> files \<Rightarrow> jserror + (json \<times> files)" where
  "readTodos_try env fs =
     (case TODOS_FILE fs of
        None \<Rightarrow> Inr (JArr [], fs\<lparr>TODOS_FILE := Some ''[]''\<rparr>)
      | Some data \<Rightarrow>
          if trim data = '''' then Inr (JArr [], fs)
          else (case JSON_parse env data of
                  None \<Rightarrow> Inl SyntaxError
                | Some v \<Rightarrow> Inr (v, fs)))"

definition readTodos :: "env \<Rightarrow> files \<Rightarrow> json \<times> files" where
  "readTodos env fs =
     (case readTodos_try env fs of
        Inr r \<Rightarrow> r
      | Inl error \<Rightarrow> (JArr [], fs\<lparr>TODOS_FILE := Some ''[]''\<rparr>))"

definition writeTodos :: "env \<Rightarrow> json \<Rightarrow> files \<Rightarrow> files" where
  "writeTodos env todos fs = fs\<lparr>TODOS_FILE := Some (JSON_stringify env todos)\<rparr>"

definition readUsers_try :: "env \<Rightarrow> files \<Rightarrow> jserror + (json \<times> files)" where
  "readUsers_try env fs =
     (case USERS_FILE fs of
        None \<Rightarrow> Inr (JArr [], fs\<lparr>USERS_FILE := Some ''[]''\<rparr>)
      | Some data \<Rightarrow>
          if trim data = '''' then Inr (JArr [], fs)
          else (case JSON_parse env data of
                  None \<Rightarrow> Inl SyntaxError
                | Some v \<Rightarrow> Inr (v, fs)))"

definition readUsers :: "env \<Rightarrow> files \<Rightarrow> json \<times> files" where
  "readUsers env fs =
     (case readUsers_try env fs of
        Inr r \<Rightarrow> r
      | Inl error \<Rightarrow> (JArr [], fs\<lparr>USERS_FILE := Some ''[]''\<rparr>))"

definition writeUsers :: "env \<Rightarrow> json \<Rightarrow> files \<Rightarrow> files" where
  "writeUsers env users fs = fs\<lparr>USERS_FILE := Some (JSON_stringify env users)\<rparr>"

subsection \<open>The auth middleware\<close>

text \<open>
  \<open>Inl\<close> is the response \<^verbatim>\<open>auth\<close> sends itself; \<open>Inr\<close> is the payload it stores in
  \<^verbatim>\<open>req.user\<close> before it calls \<^verbatim>\<open>next()\<close>. A token that is \<^verbatim>\<open>null\<close> or empty is missing.
\<close>

definition auth :: "env \<Rightarrow> request \<Rightarrow> response + json" where
  "auth env req =
     (let authHeader = (case authorization req of None \<Rightarrow> '''' | Some h \<Rightarrow> h);
          token = (if startsWith authHeader ''Bearer '' then Some (drop 7 authHeader) else None)
      in case token of
           None \<Rightarrow> Inl (respond 401 (message ''Missing Authorization header''))
         | Some t \<Rightarrow>
             if t = '''' then Inl (respond 401 (message ''Missing Authorization header''))
             else (case jwt_verify env t of
                     None \<Rightarrow> Inl (respond 401 (message ''Invalid or expired token''))
                   | Some payload \<Rightarrow> Inr payload))"

subsection \<open>The endpoints\<close>

text \<open>
  Every handler takes the files and returns its response with the files as it leaves
  them. \<open>rid\<close> is the value of \<^verbatim>\<open>Math.random().toString(36)\<close> cut to seven characters.
  A TypeError thrown in a handler (a method of a value that is not an array, a property
  of \<^verbatim>\<open>null\<close>) reaches Express, which answers 500; the files stay as they are then.
\<close>

definition newUser :: "string \<Rightarrow> json \<Rightarrow> json \<Rightarrow> json" where
  "newUser rid username password =
     JObj [(''id'', JStr rid), (''username'', username), (''password'', password)]"

definition post_auth_signup :: "env \<Rightarrow> string \<Rightarrow> request \<Rightarrow> files \<Rightarrow> response \<times> files" where
  "post_auth_signup env rid req fs =
     (case (map_of (body req) ''username'', map_of (body req) ''password'') of
        (Some username, Some password) \<Rightarrow>
          if \<not> truthy username \<or> \<not> truthy password
          then (respond 400 (message ''username and password are required''), fs)
          else
            (let (users, fs1) = readUsers env fs in
             case users of
               JArr us \<Rightarrow>
                 (case js_find
                         (\<lambda>u. case get_member u ''username'' of
                                Inl e \<Rightarrow> Inl e
                              | Inr v \<Rightarrow> Inr (strict_equal v (Some username))) us of
                    Inl e \<Rightarrow> (internal_error, fs1)
                  | Inr exists \<Rightarrow>
                      if \<not> falsy exists
                      then (respond 409 (message ''username already exists''), fs1)
                      else
                        (let fs2 = writeUsers env (JArr (us @ [newUser rid username password])) fs1;
                             token = jwt_sign env (Some (JStr rid)) username
                         in (respond 201 (JObj [(''token'', JStr token), (''username'', username)]),
                             fs2)))
             | _ \<Rightarrow> (internal_error, fs1))
      | _ \<Rightarrow> (respond 400 (message ''username and password are required''), fs))"

definition post_auth_login :: "env \<Rightarrow> request \<Rightarrow> files \<Rightarrow> response \<times> files" where
  "post_auth_login env req fs =
     (case (map_of (body req) ''username'', map_of (body req) ''password'') of
        (Some username, Some password) \<Rightarrow>
          if \<not> truthy username \<or> \<not> truthy password
          then (respond 400 (message ''username and password are required''), fs)
          else
            (let (users, fs1) = readUsers env fs in
             case users of
               JArr us \<Rightarrow>
                 (case js_find
                         (\<lambda>u. case get_member u ''username'' of
                                Inl e \<Rightarrow> Inl e
                              | Inr v \<Rightarrow>
                                  if strict_equal v (Some username)
                                  then (case get_member u ''password'' of
                                          Inl e \<Rightarrow> Inl e
                                        | Inr w \<Rightarrow> Inr (strict_equal w (Some password)))
                                  else Inr False) us of
                    Inl e \<Rightarrow> (internal_error, fs1)
                  | Inr None \<Rightarrow> (respond 401 (message ''invalid credentials''), fs1)
                  | Inr (Some user) \<Rightarrow>
                      if \<not> truthy user
                      then (respond 401 (message ''invalid credentials''), fs1)
                      else (case get_member user ''id'' of
                              Inl e \<Rightarrow> (internal_error, fs1)
                            | Inr sub \<Rightarrow>
                                (let token = jwt_sign env sub username
                                 in (respond 200
                                       (JObj [(''token'', JStr token), (''username'', username)]),
                                     fs1))))
             | _ \<Rightarrow> (internal_error, fs1))
      | _ \<Rightarrow> (respond 400 (message ''username and password are required''), fs))"

text \<open>The three handlers behind \<^verbatim>\<open>auth\<close>, then the routes as registered.\<close>

definition get_todos_handler :: "env \<Rightarrow> request \<Rightarrow> files \<Rightarrow> response \<times> files" where
  "get_todos_handler env req fs =
     (let (todos, fs1) = readTodos env fs in (respond 200 todos, fs1))"

definition newTodo :: "string \<Rightarrow> json \<Rightarrow> json" where
  "newTodo rid text = JObj [(''id'', JStr rid), (''text'', text), (''completed'', JBool False)]"

definition post_todos_handler :: "env \<Rightarrow> string \<Rightarrow> request \<Rightarrow> files \<Rightarrow> response \<times> files" where
  "post_todos_handler env rid req fs =
     (case map_of (body req) ''text'' of
        None \<Rightarrow> (respond 400 (message ''Todo text is required''), fs)
      | Some text \<Rightarrow>
          if \<not> truthy text then (respond 400 (message ''Todo text is required''), fs)
          else
            (let (todos, fs1) = readTodos env fs in
             case todos of
               JArr ts \<Rightarrow>
                 (respond 201 (newTodo rid text),
                  writeTodos env (JArr (ts @ [newTodo rid text])) fs1)
             | _ \<Rightarrow> (internal_error, fs1)))"

definition delete_todos_handler :: "env \<Rightarrow> request \<Rightarrow> files \<Rightarrow> response \<times> files" where
  "delete_todos_handler env req fs =
     (let id = params_id req;
          (todos, fs1) = readTodos env fs
      in case todos of
           JArr ts \<Rightarrow>
             (case js_filter
                     (\<lambda>todo. case get_member todo ''id'' of
                               Inl e \<Rightarrow> Inl e
                             | Inr v \<Rightarrow> Inr (\<not> strict_equal v (Some (JStr id)))) ts of
                Inl e \<Rightarrow> (internal_error, fs1)
              | Inr kept \<Rightarrow>
                  if length kept = length ts
                  then (respond 404 (message ''Todo not found''), fs1)
                  else (\<lparr>status = 204, sent = None\<rparr>, writeTodos env (JArr kept) fs1))
         | _ \<Rightarrow> (internal_error, fs1))"

definition get_todos :: "env \<Rightarrow> request \<Rightarrow> files \<Rightarrow> response \<times> files" where
  "get_todos env req fs =
     (case auth env req of
        Inl res \<Rightarrow> (res, fs)
      | Inr payload \<Rightarrow> get_todos_handler env req fs)"

definition post_todos :: "env \<Rightarrow> string \<Rightarrow> request \<Rightarrow> files \<Rightarrow> response \<times> files" where
  "post_todos env rid req fs =
     (case auth env req of
        Inl res \<Rightarrow> (res, fs)
      | Inr payload \<Rightarrow> post_todos_handler env rid req fs)"

definition delete_todos :: "env \<Rightarrow> request \<Rightarrow> files \<Rightarrow> response \<times> files" where
  "delete_todos env req fs =
     (case auth env req of
        Inl res \<Rightarrow> (res, fs)
      | Inr payload \<Rightarrow> delete_todos_handler env req fs)"

text \<open>The router of \<^verbatim>\<open>src/index.js\<close>: the five routes it registers.\<close>

datatype route = POST_auth_signup | POST_auth_login | GET_todos | POST_todos | DELETE_todos

fun app :: "env \<Rightarrow> string \<Rightarrow> route \<Rightarrow> request \<Rightarrow> files \<Rightarrow> response \<times> files" where
  "app env rid POST_auth_signup req fs = post_auth_signup env rid req fs"
| "app env rid POST_auth_login req fs = post_auth_login env req fs"
| "app env rid GET_todos req fs = get_todos env req fs"
| "app env rid POST_todos req fs = post_todos env rid req fs"
| "app env rid DELETE_todos req fs = delete_todos env req fs"

section \<open>src/unnamed/part_000\<close>

text \<open>
  The second server has the todo routes only, its own \<^verbatim>\<open>readTodos\<close> and \<^verbatim>\<open>writeTodos\<close>,
  and no \<^verbatim>\<open>auth\<close>: it never reads the Authorization header.
\<close>

definition part0_readTodos_try :: "env \<Rightarrow> files \<Rightarrow> jserror + (json \<times> files)" where
  "part0_readTodos_try env fs =
     (case TODOS_FILE fs of
        None \<Rightarrow> Inr (JArr [], fs\<lparr>TODOS_FILE := Some ''[]''\<rparr>)
      | Some data \<Rightarrow>
          if trim data = '''' then Inr (JArr [], fs)
          else (case JSON_parse env data of
                  None \<Rightarrow> Inl SyntaxError
                | Some v \<Rightarrow> Inr (v, fs)))"

definition part0_readTodos :: "env \<Rightarrow> files \<Rightarrow> json \<times> files" where
  "part0_readTodos env fs =
     (case part0_readTodos_try env fs of
        Inr r \<Rightarrow> r
      | Inl error \<Rightarrow> (JArr [], fs\<lparr>TODOS_FILE := Some ''[]''\<rparr>))"

definition part0_writeTodos :: "env \<Rightarrow> json \<Rightarrow> files \<Rightarrow> files" where
  "part0_writeTodos env todos fs = fs\<lparr>TODOS_FILE := Some (JSON_stringify env todos)\<rparr>"

definition part0_get_todos :: "env \<Rightarrow> request \<Rightarrow> files \<Rightarrow> response \<times> files" where
  "part0_get_todos env req fs =
     (let (todos, fs1) = part0_readTodos env fs in (respond 200 todos, fs1))"

definition part0_post_todos :: "env \<Rightarrow> string \<Rightarrow> request \<Rightarrow> files \<Rightarrow> response \<times> files" where
  "part0_post_todos env rid req fs =
     (case map_of (body req) ''text'' of
        None \<Rightarrow> (respond 400 (message ''Todo text is required''), fs)
      | Some text \<Rightarrow>
          if \<not> truthy text then (respond 400 (message ''Todo text is required''), fs)
          else
            (let (todos, fs1) = part0_readTodos env fs in
             case todos of
               JArr ts \<Rightarrow>
                 (let newTodo = JObj [(''id'', JStr rid), (''text'', text),
                                      (''completed'', JBool False)]
                  in (respond 201 newTodo, part0_writeTodos env (JArr (ts @ [newTodo])) fs1))
             | _ \<Rightarrow> (internal_error, fs1)))"

definition part0_delete_todos :: "env \<Rightarrow> request \<Rightarrow> files \<Rightarrow> response \<times> files" where
  "part0_delete_todos env req fs =
     (let id = params_id req;
          (todos, fs1) = part0_readTodos env fs
      in case todos of
           JArr ts \<Rightarrow>
             (case js_filter
                     (\<lambda>todo. case get_member todo ''id'' of
                               Inl e \<Rightarrow> Inl e
                             | Inr v \<Rightarrow> Inr (\<not> strict_equal v (Some (JStr id)))) ts of
                Inl e \<Rightarrow> (internal_error, fs1)
              | Inr kept \<Rightarrow>
                  if length kept = length ts
                  then (respond 404 (message ''Todo not found''), fs1)
                  else (\<lparr>status = 204, sent = None\<rparr>, part0_writeTodos env (JArr kept) fs1))
         | _ \<Rightarrow> (internal_error, fs1))"

section \<open>What a file holds\<close>

text \<open>
  \<open>stored env file\<close> is the value of a file that is present, not blank and well-formed
  JSON: the states in which a read returns the parsed content and writes nothing.
\<close>

definition stored :: "env \<Rightarrow> string option \<Rightarrow> json option" where
  "stored env file =
     (case file of
        None \<Rightarrow> None
      | Some data \<Rightarrow> if trim data = '''' then None else JSON_parse env data)"

section \<open>Example data\<close>

text \<open>
  Concrete inputs for the examples that follow the theorems: two todos, two users, and
  the text \<^verbatim>\<open>JSON.stringify(list, null, 2)\<close> writes for a list of such records (one
  member per line, indented by two spaces per level; the strings of the examples need
  no escapes). \<open>carl\<close> and \<open>carl_again\<close> are two users whose username is the array
  \<^verbatim>\<open>["a"]\<close>, as the server stores them when a request sends one.
\<close>

definition walk :: json where
  "walk = JObj [(''id'', JStr ''a1''), (''text'', JStr ''walk''), (''completed'', JBool False)]"

definition read :: json where
  "read = JObj [(''id'', JStr ''b2''), (''text'', JStr ''read''), (''completed'', JBool False)]"

definition ann :: json where
  "ann = JObj [(''id'', JStr ''u1''), (''username'', JStr ''ann''), (''password'', JStr ''pw1'')]"

definition bob :: json where
  "bob = JObj [(''id'', JStr ''u2''), (''username'', JStr ''bob''), (''password'', JStr ''pw2'')]"

definition carl :: json where
  "carl = JObj [(''id'', JStr ''u3''), (''username'', JArr [JStr ''a'']),
                (''password'', JStr ''pw3'')]"


definition quoted :: "string \<Rightarrow> string" where
  "quoted s = [CHR 0x22] @ s @ [CHR 0x22]"

fun separated :: "string \<Rightarrow> string list \<Rightarrow> string" where
  "separated sep [] = ''''"
| "separated sep [x] = x"
| "separated sep (x # y # ys) = x @ sep @ separated sep (y # ys)"

fun item_text :: "json \<Rightarrow> string" where
  "item_text (JStr s) = ''      '' @ quoted s"
| "item_text v = ''      null''"

fun member_text :: "string \<times> json \<Rightarrow> string" where
  "member_text (k, JStr s) = ''    '' @ quoted k @ '': '' @ quoted s"
| "member_text (k, JBool b) = ''    '' @ quoted k @ '': '' @ (if b then ''true'' else ''false'')"
| "member_text (k, JArr xs) =
     ''    '' @ quoted k @ '': ''
       @ (if xs = [] then ''[]''
          else ''['' @ [CHR 0x0A] @ separated ('','' @ [CHR 0x0A]) (map item_text xs)
                 @ [CHR 0x0A] @ ''    ]'')"
| "member_text (k, v) = ''    '' @ quoted k @ '': null''"

fun element_text :: "json \<Rightarrow> string" where
  "element_text (JObj kvs) =
     ''  {'' @ [CHR 0x0A] @ separated ('','' @ [CHR 0x0A]) (map member_text kvs)
       @ [CHR 0x0A] @ ''  }''"
| "element_text v = ''  null''"

definition array_text :: "json list \<Rightarrow> string" where
  "array_text xs =
     (if xs = [] then ''[]''
      else ''['' @ [CHR 0x0A] @ separated ('','' @ [CHR 0x0A]) (map element_text xs)
             @ [CHR 0x0A] @ '']'')"

text \<open>
  \<open>example_env\<close> stands in for the libraries on these documents: \<open>JSON_stringify\<close>
  writes the text of a list of records, \<open>JSON_parse\<close> reads the texts of the lists
  below and rejects the other contents the examples use (which are not JSON). The one
  token its \<open>jwt_verify\<close> accepts is written \<^verbatim>\<open>good\<close>, and \<^verbatim>\<open>signed\<close> stands for the
  token its \<open>jwt_sign\<close> returns.
\<close>

definition documents :: "json list list" where
  "documents =
     [[], [walk], [read], [walk, read], [walk, read, walk], [ann], [ann, bob], [carl]]"

definition example_env :: env where
  "example_env =
     \<lparr>JSON_parse = map_of (map (\<lambda>xs. (array_text xs, JArr xs)) documents),
      JSON_stringify = (\<lambda>v. case v of JArr xs \<Rightarrow> array_text xs | _ \<Rightarrow> ''null''),
      jwt_verify = (\<lambda>t. if t = ''good'' then Some (JObj [(''sub'', JStr ''u1'')]) else None),
      jwt_sign = (\<lambda>sub username. ''signed'')\<rparr>"

definition bearer :: "(string \<times> json) list \<Rightarrow> string \<Rightarrow> request" where
  "bearer b i = \<lparr>authorization = Some ''Bearer good'', body = b, params_id = i\<rparr>"

definition anonymous :: "(string \<times> json) list \<Rightarrow> string \<Rightarrow> request" where
  "anonymous b i = \<lparr>authorization = None, body = b, params_id = i\<rparr>"

definition todos_only :: "json list \<Rightarrow> files" where
  "todos_only xs = \<lparr>TODOS_FILE = Some (array_text xs), USERS_FILE = None\<rparr>"

definition users_only :: "json list \<Rightarrow> files" where
  "users_only xs = \<lparr>TODOS_FILE = None, USERS_FILE = Some (array_text xs)\<rparr>"

section \<open>Lemmas about the helpers\<close>

lemma dropWhile_all: "(\<forall>x\<in>set (dropWhile P xs). P x) = (\<forall>x\<in>set xs. P x)"
proof
  assume a: "\<forall>x\<in>set (dropWhile P xs). P x"
  have "set xs = set (takeWhile P xs) \<union> set (dropWhile P xs)"
    by (metis set_append takeWhile_dropWhile_id)
  then show "\<forall>x\<in>set xs. P x"
    using a by (auto dest: set_takeWhileD)
next
  assume "\<forall>x\<in>set xs. P x"
  then show "\<forall>x\<in>set (dropWhile P xs). P x"
    by (auto dest: set_dropWhileD)
qed

text \<open>A content is blank, for \<^verbatim>\<open>trim\<close>, exactly when all its characters are white space.\<close>

lemma trim_blank: "(trim s = '''') = (\<forall>c\<in>set s. js_whitespace c)"
  by (simp add: trim_def dropWhile_eq_Nil_conv dropWhile_all)

lemmas example_defs = trim_blank js_whitespace_def example_env_def documents_def walk_def
  read_def ann_def bob_def bearer_def anonymous_def todos_only_def users_only_def Let_def
  array_text_def quoted_def

lemma auth_bearer: "auth example_env (bearer b i) = Inr (JObj [(''sub'', JStr ''u1'')])"
  by (simp add: auth_def bearer_def example_env_def startsWith_def)

lemma readTodos_stored: "stored env (TODOS_FILE fs) = Some v \<Longrightarrow> readTodos env fs = (v, fs)"
  by (auto simp: stored_def readTodos_def readTodos_try_def split: option.splits if_splits)

lemma readUsers_stored: "stored env (USERS_FILE fs) = Some v \<Longrightarrow> readUsers env fs = (v, fs)"
  by (auto simp: stored_def readUsers_def readUsers_try_def split: option.splits if_splits)

lemma writeTodos_after_read:
  "writeTodos env v (snd (readTodos env fs)) = fs\<lparr>TODOS_FILE := Some (JSON_stringify env v)\<rparr>"
  by (simp add: writeTodos_def readTodos_def readTodos_try_def split: option.splits)

lemma get_member_property: "x \<noteq> JNull \<Longrightarrow> get_member x k = Inr (property k x)"
  by (cases x) simp_all

lemma get_member_Inl: "(get_member x k = Inl e) = (x = JNull \<and> e = TypeError)"
  by (cases x) auto

lemma property_truthy: "property k x = Some w \<Longrightarrow> truthy x"
  by (cases x) simp_all

lemma strict_equal_JStr: "strict_equal v (Some (JStr s)) = (v = Some (JStr s))"
proof (cases v)
  case None
  then show ?thesis by simp
next
  case (Some a)
  then show ?thesis by (cases a) auto
qed

lemma all_differ_iff: "(\<forall>t\<in>set ts. f t \<noteq> v) = (v \<notin> set (map f ts))"
  by auto

lemma length_filter_eq: "(length (filter P xs) = length xs) = (\<forall>x\<in>set xs. P x)"
  by (metis filter_True length_filter_less less_irrefl_nat)

text \<open>
  On a list without \<^verbatim>\<open>null\<close> the callback of \<^verbatim>\<open>filter\<close> never throws and \<open>js_filter\<close> is
  the list filter; one \<^verbatim>\<open>null\<close> anywhere makes it throw.
\<close>

lemma js_filter_total:
  "JNull \<notin> set ts \<Longrightarrow>
   js_filter (\<lambda>todo. case get_member todo k of Inl e \<Rightarrow> Inl e | Inr v \<Rightarrow> Inr (P v)) ts
     = Inr (filter (\<lambda>todo. P (property k todo)) ts)"
  by (induction ts) (auto simp: get_member_property)

lemma js_filter_null:
  "JNull \<in> set ts \<Longrightarrow>
   js_filter (\<lambda>todo. case get_member todo k of Inl e \<Rightarrow> Inl e | Inr v \<Rightarrow> Inr (P v)) ts
     = Inl TypeError"
  by (induction ts) (auto simp: get_member_Inl split: sum.splits)

lemma js_find_pure:
  "\<forall>x\<in>set us. f x = Inr (Q x) \<Longrightarrow> js_find f us = Inr (find Q us)"
  by (induction us) auto



section \<open>The two servers share the todo handlers\<close>

lemma part0_readTodos_eq: "part0_readTodos = readTodos"
  by (intro ext)
    (simp add: part0_readTodos_def part0_readTodos_try_def readTodos_def readTodos_try_def)

lemma part0_writeTodos_eq: "part0_writeTodos = writeTodos"
  by (intro ext) (simp add: part0_writeTodos_def writeTodos_def)

lemma part0_get_todos_eq: "part0_get_todos env req fs = get_todos_handler env req fs"
  unfolding part0_get_todos_def get_todos_handler_def part0_readTodos_eq by (rule refl)

lemma part0_post_todos_eq: "part0_post_todos env rid req fs = post_todos_handler env rid req fs"
  unfolding part0_post_todos_def post_todos_handler_def part0_readTodos_eq
    part0_writeTodos_eq newTodo_def Let_def by (rule refl)

lemma part0_delete_todos_eq: "part0_delete_todos env req fs = delete_todos_handler env req fs"
  unfolding part0_delete_todos_def delete_todos_handler_def part0_readTodos_eq
    part0_writeTodos_eq by (rule refl)

text \<open>
  C10. For every state of the files, every request and every random id, the three todo
  routes of \<^verbatim>\<open>src/unnamed/part_000\<close> return the same response (status and body) and leave
  the same files as the routes of \<^verbatim>\<open>src/index.js\<close>, whenever \<^verbatim>\<open>auth\<close> lets the request
  through. Both servers draw the id from \<^verbatim>\<open>Math.random()\<close>; the same draw \<open>rid\<close> gives
  equal results.
\<close>

theorem part0_equals_index_behind_auth:
  assumes "auth env req = Inr payload"
  shows "part0_get_todos env req fs = get_todos env req fs
       \<and> part0_post_todos env rid req fs = post_todos env rid req fs
       \<and> part0_delete_todos env req fs = delete_todos env req fs"
  using assms
  by (simp add: get_todos_def post_todos_def delete_todos_def part0_get_todos_eq
      part0_post_todos_eq part0_delete_todos_eq)

text \<open>
  An example: a request with the accepted token on a file holding one todo. The three
  routes agree, and GET answers 200 with that todo on both servers.
\<close>

theorem part0_equals_index_behind_auth_witness:
  "part0_get_todos example_env (bearer [(''text'', JStr ''read'')] ''a1'') (todos_only [walk])
     = get_todos example_env (bearer [(''text'', JStr ''read'')] ''a1'') (todos_only [walk])
   \<and> part0_post_todos example_env ''b2'' (bearer [(''text'', JStr ''read'')] ''a1'')
        (todos_only [walk])
     = post_todos example_env ''b2'' (bearer [(''text'', JStr ''read'')] ''a1'')
        (todos_only [walk])
   \<and> part0_delete_todos example_env (bearer [(''text'', JStr ''read'')] ''a1'')
        (todos_only [walk])
     = delete_todos example_env (bearer [(''text'', JStr ''read'')] ''a1'') (todos_only [walk])
   \<and> get_todos example_env (bearer [(''text'', JStr ''read'')] ''a1'') (todos_only [walk])
     = (respond 200 (JArr [walk]), todos_only [walk])"
proof -
  have g: "get_todos example_env (bearer [(''text'', JStr ''read'')] ''a1'') (todos_only [walk])
     = (respond 200 (JArr [walk]), todos_only [walk])"
    by (simp add: get_todos_def get_todos_handler_def auth_def startsWith_def
        readTodos_def readTodos_try_def example_defs)
  show ?thesis
    using part0_equals_index_behind_auth
      [OF auth_bearer, of "[(''text'', JStr ''read'')]" "''a1''" "todos_only [walk]" "''b2''"] g
    by simp
qed

section \<open>DELETE /todos/:id\<close>

text \<open>
  What the handler does once the store has read as a list: 500 when the list has a
  \<^verbatim>\<open>null\<close> (the callback throws on it), 404 when no id matches, otherwise 204 and the
  filtered list is written.
\<close>

lemma delete_todos_handler_list:
  assumes "readTodos env fs = (JArr ts, fs1)"
  shows "delete_todos_handler env req fs =
      (if JNull \<in> set ts then (internal_error, fs1)
       else if \<forall>t\<in>set ts. property ''id'' t \<noteq> Some (JStr (params_id req))
       then (respond 404 (message ''Todo not found''), fs1)
       else (\<lparr>status = 204, sent = None\<rparr>,
             writeTodos env
               (JArr (filter (\<lambda>t. property ''id'' t \<noteq> Some (JStr (params_id req))) ts)) fs1))"
proof (cases "JNull \<in> set ts")
  case True
  then show ?thesis
    using assms by (simp add: delete_todos_handler_def js_filter_null)
next
  case False
  then show ?thesis
    using assms
    by (simp add: delete_todos_handler_def js_filter_total strict_equal_JStr length_filter_eq
        Let_def)
qed

lemma delete_todos_handler_204:
  assumes "fst (readTodos env fs) = JArr ts"
      and "status (fst (delete_todos_handler env req fs)) = 204"
  shows "snd (delete_todos_handler env req fs) =
      fs\<lparr>TODOS_FILE := Some (JSON_stringify env
            (JArr (filter (\<lambda>t. property ''id'' t \<noteq> Some (JStr (params_id req))) ts)))\<rparr>"
proof -
  obtain fs1 where r: "readTodos env fs = (JArr ts, fs1)"
    using assms(1) by (cases "readTodos env fs") simp
  then have fs1: "fs1 = snd (readTodos env fs)" by simp
  show ?thesis
    using assms(2) writeTodos_after_read [of env _ fs]
    unfolding delete_todos_handler_list [OF r] fs1 [symmetric]
    by (auto simp: internal_error_def respond_def split: if_splits)
qed

lemma delete_todos_204_authorized:
  "status (fst (delete_todos env req fs)) = 204 \<Longrightarrow>
   delete_todos env req fs = delete_todos_handler env req fs"
  by (auto simp: delete_todos_def auth_def respond_def Let_def
      split: sum.splits option.splits if_splits)

text \<open>
  C2. Take a request that \<^verbatim>\<open>auth\<close> lets through and a todos file that holds a list of
  todos (no \<^verbatim>\<open>null\<close> among them). If the id of the path is the id of no todo of the list,
  DELETE /todos/:id answers 404 with \<^verbatim>\<open>Todo not found\<close> and leaves both files exactly as
  they were: nothing is written. If the id is the id of some todo of the list, it
  answers 204 with no body.
\<close>

theorem delete_missing_id_is_404:
  assumes "auth env req = Inr payload"
      and "stored env (TODOS_FILE fs) = Some (JArr ts)"
      and "JNull \<notin> set ts"
  shows "(Some (JStr (params_id req)) \<notin> set (map (property ''id'') ts) \<longrightarrow>
            delete_todos env req fs = (respond 404 (message ''Todo not found''), fs))
       \<and> (Some (JStr (params_id req)) \<in> set (map (property ''id'') ts) \<longrightarrow>
            fst (delete_todos env req fs) = \<lparr>status = 204, sent = None\<rparr>)"
proof -
  have "readTodos env fs = (JArr ts, fs)"
    using assms(2) by (rule readTodos_stored)
  then show ?thesis
    using assms(1,3)
    by (simp add: delete_todos_def delete_todos_handler_list all_differ_iff del: set_map)
qed

text \<open>
  An example: the file holds the todos \<^verbatim>\<open>a1\<close> and \<^verbatim>\<open>b2\<close>. Deleting \<^verbatim>\<open>zz\<close> answers 404 and
  the file is untouched; deleting \<^verbatim>\<open>b2\<close> answers 204.
\<close>

theorem delete_missing_id_is_404_witness:
  "delete_todos example_env (bearer [] ''zz'') (todos_only [walk, read])
     = (respond 404 (message ''Todo not found''), todos_only [walk, read])
   \<and> fst (delete_todos example_env (bearer [] ''b2'') (todos_only [walk, read]))
     = \<lparr>status = 204, sent = None\<rparr>"
proof -
  have st: "stored example_env (TODOS_FILE (todos_only [walk, read])) = Some (JArr [walk, read])"
    by (simp add: stored_def example_defs)
  have nn: "JNull \<notin> set [walk, read]"
    by (simp add: walk_def read_def)
  show ?thesis
    using delete_missing_id_is_404 [OF auth_bearer st nn, of "[]" "''zz''"]
      delete_missing_id_is_404 [OF auth_bearer st nn, of "[]" "''b2''"]
    by (simp add: walk_def read_def bearer_def)
qed

text \<open>
  C9. Whenever the store reads as the list \<open>ts\<close> and DELETE /todos/:id answers 204, the
  file it leaves is the serialisation of \<open>ts\<close> filtered by id mismatch: every todo whose
  id is the id of the path is gone, however many there are, and the others stay, in
  their order and unchanged. This holds for the route of \<^verbatim>\<open>src/index.js\<close> and for the
  route of \<^verbatim>\<open>src/unnamed/part_000\<close>.
\<close>

theorem delete_is_filter:
  assumes "fst (readTodos env fs) = JArr ts"
  shows "(status (fst (delete_todos env req fs)) = 204 \<longrightarrow>
            snd (delete_todos env req fs) =
              fs\<lparr>TODOS_FILE := Some (JSON_stringify env
                (JArr (filter (\<lambda>t. property ''id'' t \<noteq> Some (JStr (params_id req))) ts)))\<rparr>)
       \<and> (status (fst (part0_delete_todos env req fs)) = 204 \<longrightarrow>
            snd (part0_delete_todos env req fs) =
              fs\<lparr>TODOS_FILE := Some (JSON_stringify env
                (JArr (filter (\<lambda>t. property ''id'' t \<noteq> Some (JStr (params_id req))) ts)))\<rparr>)"
proof (intro conjI impI)
  assume "status (fst (delete_todos env req fs)) = 204"
  then show "snd (delete_todos env req fs) =
      fs\<lparr>TODOS_FILE := Some (JSON_stringify env
        (JArr (filter (\<lambda>t. property ''id'' t \<noteq> Some (JStr (params_id req))) ts)))\<rparr>"
    using delete_todos_handler_204 [OF assms, of req] delete_todos_204_authorized [of env req fs]
    by simp
next
  assume "status (fst (part0_delete_todos env req fs)) = 204"
  then show "snd (part0_delete_todos env req fs) =
      fs\<lparr>TODOS_FILE := Some (JSON_stringify env
        (JArr (filter (\<lambda>t. property ''id'' t \<noteq> Some (JStr (params_id req))) ts)))\<rparr>"
    using delete_todos_handler_204 [OF assms, of req] by (simp add: part0_delete_todos_eq)
qed

text \<open>
  An example: the file holds \<^verbatim>\<open>a1\<close>, \<^verbatim>\<open>b2\<close> and \<^verbatim>\<open>a1\<close> again. Deleting \<^verbatim>\<open>a1\<close> removes both
  copies and leaves \<^verbatim>\<open>b2\<close>, on either server.
\<close>

theorem delete_is_filter_witness:
  "snd (delete_todos example_env (bearer [] ''a1'') (todos_only [walk, read, walk]))
     = todos_only [read]
   \<and> snd (part0_delete_todos example_env (bearer [] ''a1'') (todos_only [walk, read, walk]))
     = todos_only [read]"
proof -
  let ?fs = "todos_only [walk, read, walk]"
  let ?req = "bearer [] ''a1''"
  have r: "fst (readTodos example_env ?fs) = JArr [walk, read, walk]"
    by (simp add: readTodos_def readTodos_try_def example_defs)
  have s1: "status (fst (delete_todos example_env ?req ?fs)) = 204"
    by (simp add: delete_todos_def delete_todos_handler_def auth_def startsWith_def
        readTodos_def readTodos_try_def example_defs)
  have s2: "status (fst (part0_delete_todos example_env ?req ?fs)) = 204"
    by (simp add: part0_delete_todos_def part0_readTodos_def part0_readTodos_try_def
        example_defs)
  show ?thesis
    using delete_is_filter [OF r, of ?req] s1 s2
    by (simp add: example_defs)
qed

section \<open>Reading the stores\<close>

text \<open>
  C7. A todos or users file whose content is not blank and not well-formed JSON reads
  as the empty list and is overwritten with \<^verbatim>\<open>[]\<close>. An absent file reads as the empty
  list and is created as \<^verbatim>\<open>[]\<close>; a blank file reads as the empty list and is left as
  it is. The same holds for \<^verbatim>\<open>readTodos\<close> of \<^verbatim>\<open>src/unnamed/part_000\<close>. A read returns on
  every content: its result is the empty list, or the value \<^verbatim>\<open>JSON.parse\<close> gave for a
  present, non-blank, well-formed file.
\<close>

theorem read_resets_corrupt_file:
  "(TODOS_FILE fs = Some data \<and> trim data \<noteq> '''' \<and> JSON_parse env data = None \<longrightarrow>
       readTodos env fs = (JArr [], fs\<lparr>TODOS_FILE := Some ''[]''\<rparr>)
     \<and> part0_readTodos env fs = (JArr [], fs\<lparr>TODOS_FILE := Some ''[]''\<rparr>))
   \<and> (USERS_FILE fs = Some data \<and> trim data \<noteq> '''' \<and> JSON_parse env data = None \<longrightarrow>
       readUsers env fs = (JArr [], fs\<lparr>USERS_FILE := Some ''[]''\<rparr>))
   \<and> (TODOS_FILE fs = None \<longrightarrow>
       readTodos env fs = (JArr [], fs\<lparr>TODOS_FILE := Some ''[]''\<rparr>)
     \<and> part0_readTodos env fs = (JArr [], fs\<lparr>TODOS_FILE := Some ''[]''\<rparr>))
   \<and> (USERS_FILE fs = None \<longrightarrow>
       readUsers env fs = (JArr [], fs\<lparr>USERS_FILE := Some ''[]''\<rparr>))
   \<and> (TODOS_FILE fs = Some data \<and> trim data = '''' \<longrightarrow>
       readTodos env fs = (JArr [], fs) \<and> part0_readTodos env fs = (JArr [], fs))
   \<and> (USERS_FILE fs = Some data \<and> trim data = '''' \<longrightarrow> readUsers env fs = (JArr [], fs))
   \<and> (fst (readTodos env fs) = JArr []
        \<or> Some (fst (readTodos env fs)) = stored env (TODOS_FILE fs))
   \<and> (fst (readUsers env fs) = JArr []
        \<or> Some (fst (readUsers env fs)) = stored env (USERS_FILE fs))"
  by (auto simp: readTodos_def readTodos_try_def readUsers_def readUsers_try_def
      part0_readTodos_eq stored_def split: option.splits)

text \<open>
  An example: a todos file cut off after \<^verbatim>\<open>{oops\<close> is reset, and so is a users file cut
  off after \<^verbatim>\<open>[{\<close>; an absent todos file is created; a users file of two spaces is
  read as empty and kept.
\<close>

theorem read_resets_corrupt_file_witness:
  "readTodos example_env \<lparr>TODOS_FILE = Some ''{oops'', USERS_FILE = Some ''  ''\<rparr>
     = (JArr [], \<lparr>TODOS_FILE = Some ''[]'', USERS_FILE = Some ''  ''\<rparr>)
   \<and> readUsers example_env \<lparr>TODOS_FILE = None, USERS_FILE = Some ''[{''\<rparr>
     = (JArr [], \<lparr>TODOS_FILE = None, USERS_FILE = Some ''[]''\<rparr>)
   \<and> readTodos example_env \<lparr>TODOS_FILE = None, USERS_FILE = Some ''[{''\<rparr>
     = (JArr [], \<lparr>TODOS_FILE = Some ''[]'', USERS_FILE = Some ''[{''\<rparr>)
   \<and> readUsers example_env \<lparr>TODOS_FILE = Some ''{oops'', USERS_FILE = Some ''  ''\<rparr>
     = (JArr [], \<lparr>TODOS_FILE = Some ''{oops'', USERS_FILE = Some ''  ''\<rparr>)"
proof -
  let ?a = "\<lparr>TODOS_FILE = Some ''{oops'', USERS_FILE = Some ''  ''\<rparr>"
  let ?b = "\<lparr>TODOS_FILE = None, USERS_FILE = Some ''[{''\<rparr>"
  have 1: "TODOS_FILE ?a = Some ''{oops'' \<and> trim ''{oops'' \<noteq> ''''
      \<and> JSON_parse example_env ''{oops'' = None"
    by (simp add: example_defs)
  have 2: "USERS_FILE ?b = Some ''[{'' \<and> trim ''[{'' \<noteq> ''''
      \<and> JSON_parse example_env ''[{'' = None"
    by (simp add: example_defs)
  have 3: "USERS_FILE ?a = Some ''  '' \<and> trim ''  '' = ''''"
    by (simp add: example_defs)
  show ?thesis
    using read_resets_corrupt_file [of ?a "''{oops''" example_env]
      read_resets_corrupt_file [of ?b "''[{''" example_env]
      read_resets_corrupt_file [of ?a "''  ''" example_env] 1 2 3
    by simp
qed

section \<open>Authentication\<close>

text \<open>
  C5, as the code has it. On the server of \<^verbatim>\<open>src/index.js\<close>, a request to GET /todos,
  POST /todos or DELETE /todos/:id whose Authorization header is absent, or does not
  start with \<^verbatim>\<open>Bearer \<close>, or carries a token that \<^verbatim>\<open>jwt.verify\<close> rejects, is answered 401
  and leaves both files as they were. The server of \<^verbatim>\<open>src/unnamed/part_000\<close> has no
  authentication: its routes never look at the header.
\<close>

theorem index_routes_reject_bad_tokens:
  assumes "authorization req = None
         \<or> (\<exists>h. authorization req = Some h \<and> \<not> startsWith h ''Bearer '')
         \<or> (\<exists>t. authorization req = Some (''Bearer '' @ t) \<and> jwt_verify env t = None)"
  shows "status (fst (get_todos env req fs)) = 401 \<and> snd (get_todos env req fs) = fs
       \<and> status (fst (post_todos env rid req fs)) = 401 \<and> snd (post_todos env rid req fs) = fs
       \<and> status (fst (delete_todos env req fs)) = 401 \<and> snd (delete_todos env req fs) = fs"
proof -
  have "\<exists>m. auth env req = Inl (respond 401 (message m))"
    using assms
    by (auto simp: auth_def startsWith_def Let_def split: option.splits)
  then show ?thesis
    by (auto simp: get_todos_def post_todos_def delete_todos_def respond_def)
qed

text \<open>
  An example of each case: no header on GET, a \<^verbatim>\<open>Basic\<close> header on POST, a token that
  does not verify on DELETE.
\<close>

theorem index_routes_reject_bad_tokens_witness:
  "status (fst (get_todos example_env (anonymous [] '''') (todos_only [walk]))) = 401
   \<and> snd (post_todos example_env ''b2''
        \<lparr>authorization = Some ''Basic good'', body = [(''text'', JStr ''read'')], params_id = ''''\<rparr>
        (todos_only [walk])) = todos_only [walk]
   \<and> status (fst (delete_todos example_env
        \<lparr>authorization = Some ''Bearer forged'', body = [], params_id = ''a1''\<rparr>
        (todos_only [walk]))) = 401
   \<and> snd (delete_todos example_env
        \<lparr>authorization = Some ''Bearer forged'', body = [], params_id = ''a1''\<rparr>
        (todos_only [walk])) = todos_only [walk]"
proof -
  let ?r2 = "\<lparr>authorization = Some ''Basic good'', body = [(''text'', JStr ''read'')],
     params_id = ''''\<rparr>"
  let ?r3 = "\<lparr>authorization = Some ''Bearer forged'', body = [], params_id = ''a1''\<rparr>"
  have 1: "authorization (anonymous [] '''') = None"
    by (simp add: anonymous_def)
  have 2: "\<exists>h. authorization ?r2 = Some h \<and> \<not> startsWith h ''Bearer ''"
    by (simp add: startsWith_def)
  have 3: "\<exists>t. authorization ?r3 = Some (''Bearer '' @ t) \<and> jwt_verify example_env t = None"
    by (simp add: example_env_def)
  show ?thesis
    using index_routes_reject_bad_tokens
        [of "anonymous [] ''''" example_env "todos_only [walk]" "''b2''"]
      index_routes_reject_bad_tokens [of ?r2 example_env "todos_only [walk]" "''b2''"]
      index_routes_reject_bad_tokens [of ?r3 example_env "todos_only [walk]" "''b2''"]
      1 2 3
    by simp
qed

text \<open>
  C5 as stated fails on \<^verbatim>\<open>src/unnamed/part_000\<close>: GET /todos with no Authorization
  header is answered 200 with the stored list.
\<close>

theorem part0_serves_without_token:
  "part0_get_todos example_env (anonymous [] '''') (todos_only [walk])
     = (respond 200 (JArr [walk]), todos_only [walk])"
  by (simp add: part0_get_todos_def part0_readTodos_def part0_readTodos_try_def example_defs)

section \<open>Validation\<close>

lemma falsy_cases: "falsy x = (x = None \<or> (\<exists>v. x = Some v \<and> \<not> truthy v))"
  by (cases x) auto

text \<open>
  C6. A request whose \<^verbatim>\<open>text\<close> is falsy (missing, or the empty string, or \<^verbatim>\<open>null\<close>,
  \<^verbatim>\<open>false\<close> or \<^verbatim>\<open>0\<close>) gets 400 with \<^verbatim>\<open>Todo text is required\<close> from POST /todos: on
  \<^verbatim>\<open>src/index.js\<close> once \<^verbatim>\<open>auth\<close> has let it through, on \<^verbatim>\<open>src/unnamed/part_000\<close> always; the
  files are unchanged in every case. A request whose \<^verbatim>\<open>username\<close> or \<^verbatim>\<open>password\<close> is
  falsy gets 400 with \<^verbatim>\<open>username and password are required\<close> from POST /auth/signup and
  from POST /auth/login, and the files are unchanged.
\<close>

theorem failed_validation_is_400:
  "(falsy (map_of (body req) ''text'') \<longrightarrow>
       (auth env req = Inr payload \<longrightarrow>
          post_todos env rid req fs = (respond 400 (message ''Todo text is required''), fs))
     \<and> snd (post_todos env rid req fs) = fs
     \<and> part0_post_todos env rid req fs = (respond 400 (message ''Todo text is required''), fs))
   \<and> (falsy (map_of (body req) ''username'') \<or> falsy (map_of (body req) ''password'') \<longrightarrow>
       post_auth_signup env rid req fs
         = (respond 400 (message ''username and password are required''), fs)
     \<and> post_auth_login env req fs
         = (respond 400 (message ''username and password are required''), fs))"
  by (auto simp: falsy_cases post_todos_def post_todos_handler_def part0_post_todos_def
      post_auth_signup_def post_auth_login_def split: option.splits sum.splits)

text \<open>
  An example: an empty \<^verbatim>\<open>text\<close> on \<^verbatim>\<open>src/index.js\<close> with the accepted token, a missing
  \<^verbatim>\<open>text\<close> on \<^verbatim>\<open>src/unnamed/part_000\<close>, a signup with no password and a login with no
  username.
\<close>

theorem failed_validation_is_400_witness:
  "post_todos example_env ''b2'' (bearer [(''text'', JStr '''')] '''') (todos_only [walk])
     = (respond 400 (message ''Todo text is required''), todos_only [walk])
   \<and> part0_post_todos example_env ''b2'' (anonymous [] '''') (todos_only [walk])
     = (respond 400 (message ''Todo text is required''), todos_only [walk])
   \<and> post_auth_signup example_env ''u2'' (anonymous [(''username'', JStr ''bob'')] '''')
        (users_only [ann])
     = (respond 400 (message ''username and password are required''), users_only [ann])
   \<and> post_auth_login example_env (anonymous [(''password'', JStr ''pw1'')] '''')
        (users_only [ann])
     = (respond 400 (message ''username and password are required''), users_only [ann])"
proof -
  have 1: "falsy (map_of (body (bearer [(''text'', JStr '''')] '''')) ''text'')"
    by (simp add: bearer_def)
  have 2: "falsy (map_of (body (anonymous [] '''')) ''text'')"
    by (simp add: anonymous_def)
  have 3: "falsy (map_of (body (anonymous [(''username'', JStr ''bob'')] '''')) ''password'')"
    by (simp add: anonymous_def)
  have 4: "falsy (map_of (body (anonymous [(''password'', JStr ''pw1'')] '''')) ''username'')"
    by (simp add: anonymous_def)
  show ?thesis
    using failed_validation_is_400 [of "bearer [(''text'', JStr '''')] ''''" example_env
        "JObj [(''sub'', JStr ''u1'')]" "''b2''" "todos_only [walk]"]
      failed_validation_is_400 [of "anonymous [] ''''" example_env _ "''b2''"
        "todos_only [walk]"]
      failed_validation_is_400 [of "anonymous [(''username'', JStr ''bob'')] ''''" example_env _
        "''u2''" "users_only [ann]"]
      failed_validation_is_400 [of "anonymous [(''password'', JStr ''pw1'')] ''''" example_env _
        "''u2''" "users_only [ann]"]
      1 2 3 4 auth_bearer [of "[(''text'', JStr '''')]" "''''"]
    by simp
qed

section \<open>POST /todos\<close>

lemma post_todos_handler_list:
  assumes "map_of (body req) ''text'' = Some v" "truthy v"
      and "fst (readTodos env fs) = JArr ts"
  shows "post_todos_handler env rid req fs =
     (respond 201 (newTodo rid v),
      fs\<lparr>TODOS_FILE := Some (JSON_stringify env (JArr (ts @ [newTodo rid v])))\<rparr>)"
proof -
  obtain fs1 where r: "readTodos env fs = (JArr ts, fs1)"
    using assms(3) by (cases "readTodos env fs") simp
  then have "writeTodos env w fs1 = fs\<lparr>TODOS_FILE := Some (JSON_stringify env w)\<rparr>" for w
    using writeTodos_after_read [of env w fs] by simp
  then show ?thesis
    using assms(1,2) r by (simp add: post_todos_handler_def)
qed

lemma post_todos_handler_cases:
  assumes "stored env (TODOS_FILE fs) = Some (JArr ts)"
  shows "snd (post_todos_handler env rid req fs) = fs
       \<or> (\<exists>v. map_of (body req) ''text'' = Some v \<and> truthy v
            \<and> post_todos_handler env rid req fs =
                (respond 201 (newTodo rid v),
                 fs\<lparr>TODOS_FILE := Some (JSON_stringify env (JArr (ts @ [newTodo rid v])))\<rparr>))"
proof (cases "falsy (map_of (body req) ''text'')")
  case True
  then show ?thesis
    by (auto simp: falsy_cases post_todos_handler_def)
next
  case False
  then obtain v where "map_of (body req) ''text'' = Some v" "truthy v"
    by (auto simp: falsy_cases)
  then show ?thesis
    using post_todos_handler_list [of req v env fs ts rid] readTodos_stored [OF assms]
    by simp
qed

lemma users_routes_keep_todos:
  "TODOS_FILE (snd (post_auth_signup env rid req fs)) = TODOS_FILE fs"
  "TODOS_FILE (snd (post_auth_login env req fs)) = TODOS_FILE fs"
  by (auto simp: post_auth_signup_def post_auth_login_def readUsers_def readUsers_try_def
      writeUsers_def Let_def
      split: option.splits json.splits sum.splits if_splits prod.splits)

text \<open>
  C1. Take any state in which the todos store reads as a list \<open>ts\<close> (a file holding a
  list, or an absent, blank or corrupt file, which read as the empty list). A POST
  /todos that \<^verbatim>\<open>auth\<close> lets through, with a non-empty string \<open>t\<close> as \<^verbatim>\<open>text\<close>, answers 201 with
  the todo \<^verbatim>\<open>{id, text: t, completed: false}\<close>. A GET /todos after it (also let through
  by \<^verbatim>\<open>auth\<close>) answers 200 with the list \<open>ts\<close> followed by that same todo, provided
  \<^verbatim>\<open>JSON.parse\<close> gives back the list that \<^verbatim>\<open>JSON.stringify\<close> was given, which is a
  property of the JSON library and not of the handlers.
\<close>

theorem created_todo_round_trips:
  assumes "auth env req = Inr payload"
      and "map_of (body req) ''text'' = Some (JStr t)" and "t \<noteq> ''''"
      and "fst (readTodos env fs) = JArr ts"
      and "created = JObj [(''id'', JStr rid), (''text'', JStr t), (''completed'', JBool False)]"
      and "JSON_parse env (JSON_stringify env (JArr (ts @ [created]))) = Some (JArr (ts @ [created]))"
      and "trim (JSON_stringify env (JArr (ts @ [created]))) \<noteq> ''''"
      and "auth env req' = Inr payload'"
  shows "fst (post_todos env rid req fs) = respond 201 created
       \<and> fst (get_todos env req' (snd (post_todos env rid req fs)))
           = respond 200 (JArr (ts @ [created]))
       \<and> created \<in> set (ts @ [created])"
proof -
  have c: "created = newTodo rid (JStr t)"
    using assms(5) by (simp add: newTodo_def)
  have p: "post_todos env rid req fs =
     (respond 201 created,
      fs\<lparr>TODOS_FILE := Some (JSON_stringify env (JArr (ts @ [created])))\<rparr>)"
    using assms(1,3) post_todos_handler_list [OF assms(2) _ assms(4), of rid]
    by (simp add: post_todos_def c)
  have "stored env (TODOS_FILE (snd (post_todos env rid req fs))) = Some (JArr (ts @ [created]))"
    using assms(6,7) by (simp add: p stored_def)
  then have "readTodos env (snd (post_todos env rid req fs))
      = (JArr (ts @ [created]), snd (post_todos env rid req fs))"
    by (rule readTodos_stored)
  then show ?thesis
    using assms(8) p by (simp add: get_todos_def get_todos_handler_def)
qed

text \<open>
  An example: the file holds the todo \<^verbatim>\<open>a1\<close>; posting the text \<^verbatim>\<open>read\<close> with the id
  \<^verbatim>\<open>b2\<close> answers 201 with the new todo, and the GET that follows lists both.
\<close>

theorem created_todo_round_trips_witness:
  "fst (post_todos example_env ''b2'' (bearer [(''text'', JStr ''read'')] '''')
          (todos_only [walk]))
     = respond 201 read
   \<and> fst (get_todos example_env (bearer [] '''')
          (snd (post_todos example_env ''b2'' (bearer [(''text'', JStr ''read'')] '''')
             (todos_only [walk]))))
     = respond 200 (JArr [walk, read])"
proof -
  have 1: "map_of (body (bearer [(''text'', JStr ''read'')] '''')) ''text'' = Some (JStr ''read'')"
    by (simp add: bearer_def)
  have 2: "fst (readTodos example_env (todos_only [walk])) = JArr [walk]"
    by (simp add: readTodos_def readTodos_try_def example_defs)
  have 3: "read = JObj [(''id'', JStr ''b2''), (''text'', JStr ''read''), (''completed'', JBool False)]"
    by (simp add: read_def)
  have 4: "JSON_parse example_env (JSON_stringify example_env (JArr ([walk] @ [read])))
      = Some (JArr ([walk] @ [read]))"
    by (simp add: example_defs)
  have 5: "trim (JSON_stringify example_env (JArr ([walk] @ [read]))) \<noteq> ''''"
    by (simp add: example_defs)
  show ?thesis
    using created_todo_round_trips [OF auth_bearer 1 _ 2 3 4 5 auth_bearer, of "[]" "''''"]
    by simp
qed

text \<open>
  C8. Let the todos file hold a list \<open>ts\<close>. A POST /todos that creates a todo (let
  through by \<^verbatim>\<open>auth\<close>, with a truthy \<^verbatim>\<open>text\<close>) answers 201 with a todo whose \<^verbatim>\<open>completed\<close> is
  \<^verbatim>\<open>false\<close> and writes \<open>ts\<close> with that todo appended at the end, so every stored todo
  keeps its value and its position. And whatever the route and the request, the todos
  file afterwards is the same as before, or holds \<open>ts\<close> with a new todo appended, or
  holds \<open>ts\<close> filtered by id: no route of the server ever writes a changed copy of a
  stored todo, and the only todo it ever adds has \<^verbatim>\<open>completed\<close> false.
\<close>

theorem todos_are_only_appended_or_removed:
  assumes "stored env (TODOS_FILE fs) = Some (JArr ts)"
  shows "(auth env req = Inr payload \<and> map_of (body req) ''text'' = Some v \<and> truthy v \<longrightarrow>
            post_todos env rid req fs
              = (respond 201 (newTodo rid v),
                 fs\<lparr>TODOS_FILE := Some (JSON_stringify env (JArr (ts @ [newTodo rid v])))\<rparr>)
          \<and> property ''completed'' (newTodo rid v) = Some (JBool False))
       \<and> (TODOS_FILE (snd (app env rid route req fs)) = TODOS_FILE fs
          \<or> (\<exists>w. truthy w
               \<and> property ''completed'' (newTodo rid w) = Some (JBool False)
               \<and> TODOS_FILE (snd (app env rid route req fs))
                   = Some (JSON_stringify env (JArr (ts @ [newTodo rid w]))))
          \<or> TODOS_FILE (snd (app env rid route req fs))
               = Some (JSON_stringify env
                   (JArr (filter (\<lambda>t. property ''id'' t \<noteq> Some (JStr (params_id req))) ts))))"
proof (intro conjI impI)
  assume a: "auth env req = Inr payload \<and> map_of (body req) ''text'' = Some v \<and> truthy v"
  then show "post_todos env rid req fs
      = (respond 201 (newTodo rid v),
         fs\<lparr>TODOS_FILE := Some (JSON_stringify env (JArr (ts @ [newTodo rid v])))\<rparr>)"
    using post_todos_handler_list [of req v env fs ts rid] readTodos_stored [OF assms]
    by (simp add: post_todos_def)
  show "property ''completed'' (newTodo rid v) = Some (JBool False)"
    by (simp add: newTodo_def)
next
  let ?same = "\<lambda>r. TODOS_FILE (snd r) = TODOS_FILE fs"
  let ?app = "\<lambda>r. \<exists>w. truthy w \<and> property ''completed'' (newTodo rid w) = Some (JBool False) \<and>
      TODOS_FILE (snd r) = Some (JSON_stringify env (JArr (ts @ [newTodo rid w])))"
  let ?del = "\<lambda>r. TODOS_FILE (snd r) = Some (JSON_stringify env
      (JArr (filter (\<lambda>t. property ''id'' t \<noteq> Some (JStr (params_id req))) ts)))"
  have r: "readTodos env fs = (JArr ts, fs)"
    using assms by (rule readTodos_stored)
  have c: "property ''completed'' (newTodo rid w) = Some (JBool False)" for w
    by (simp add: newTodo_def)
  have g: "?same (get_todos env req fs)"
    by (simp add: get_todos_def get_todos_handler_def r split: sum.splits)
  have p: "?same (post_todos env rid req fs) \<or> ?app (post_todos env rid req fs)"
    using post_todos_handler_cases [OF assms, of rid req] c
    by (cases "auth env req") (auto simp: post_todos_def)
  have d: "?same (delete_todos env req fs) \<or> ?del (delete_todos env req fs)"
    by (cases "auth env req")
      (auto simp: delete_todos_def delete_todos_handler_list [OF r] writeTodos_def)
  show "?same (app env rid route req fs) \<or> ?app (app env rid route req fs)
      \<or> ?del (app env rid route req fs)"
    using g p d users_routes_keep_todos
    by (cases route) auto
qed

text \<open>
  An example: the file holds the todo \<^verbatim>\<open>a1\<close>; posting \<^verbatim>\<open>read\<close> leaves it first and
  unchanged, with the new todo, \<^verbatim>\<open>completed\<close> false, after it.
\<close>

theorem todos_are_only_appended_or_removed_witness:
  "post_todos example_env ''b2'' (bearer [(''text'', JStr ''read'')] '''') (todos_only [walk])
     = (respond 201 read, todos_only [walk, read])
   \<and> property ''completed'' read = Some (JBool False)"
proof -
  have 1: "stored example_env (TODOS_FILE (todos_only [walk])) = Some (JArr [walk])"
    by (simp add: stored_def example_defs)
  have 2: "map_of (body (bearer [(''text'', JStr ''read'')] '''')) ''text'' = Some (JStr ''read'')"
    by (simp add: bearer_def)
  have 3: "newTodo ''b2'' (JStr ''read'') = read"
    by (simp add: newTodo_def read_def)
  have 4: "JSON_stringify example_env (JArr [walk, read]) = array_text [walk, read]"
    by (simp add: example_env_def)
  show ?thesis
    using todos_are_only_appended_or_removed [OF 1, of "bearer [(''text'', JStr ''read'')] ''''"
        "JObj [(''sub'', JStr ''u1'')]" "JStr ''read''" "''b2''" POST_todos]
      auth_bearer [of "[(''text'', JStr ''read'')]" "''''"] 2 3 4
    by (simp add: todos_only_def)
qed

section \<open>POST /auth/signup\<close>











section \<open>POST /auth/login\<close>

lemma login_callback:
  "x \<noteq> JNull \<Longrightarrow>
   (case get_member x ''username'' of
      Inl e \<Rightarrow> Inl e
    | Inr v \<Rightarrow>
        if strict_equal v (Some (JStr u))
        then (case get_member x ''password'' of
                Inl e \<Rightarrow> Inl e
              | Inr w \<Rightarrow> Inr (strict_equal w (Some (JStr p))))
        else Inr False)
   = Inr (property ''username'' x = Some (JStr u) \<and> property ''password'' x = Some (JStr p))"
  by (simp add: get_member_property strict_equal_JStr)

lemma find_SomeD: "find P xs = Some x \<Longrightarrow> x \<in> set xs \<and> P x"
  by (induction xs) (auto split: if_splits)

lemma property_get_member: "property k x = Some w \<Longrightarrow> get_member x j = Inr (property j x)"
  by (cases x) simp_all

text \<open>
  With truthy strings as credentials and a stored list without \<^verbatim>\<open>null\<close>, the handler is a
  search for the first user with that username and that password.
\<close>

lemma login_valid:
  assumes "stored env (USERS_FILE fs) = Some (JArr us)" and "JNull \<notin> set us"
      and "map_of (body req) ''username'' = Some (JStr u)" "u \<noteq> ''''"
      and "map_of (body req) ''password'' = Some (JStr p)" "p \<noteq> ''''"
  shows "post_auth_login env req fs =
     (case find (\<lambda>x. property ''username'' x = Some (JStr u)
                    \<and> property ''password'' x = Some (JStr p)) us of
        None \<Rightarrow> (respond 401 (message ''invalid credentials''), fs)
      | Some user \<Rightarrow>
          (respond 200 (JObj [(''token'', JStr (jwt_sign env (property ''id'' user) (JStr u))),
                              (''username'', JStr u)]), fs))"
proof -
  let ?Q = "\<lambda>x. property ''username'' x = Some (JStr u) \<and> property ''password'' x = Some (JStr p)"
  let ?f = "\<lambda>x. case get_member x ''username'' of
      Inl e \<Rightarrow> Inl e
    | Inr v \<Rightarrow>
        if strict_equal v (Some (JStr u))
        then (case get_member x ''password'' of
                Inl e \<Rightarrow> Inl e
              | Inr w \<Rightarrow> Inr (strict_equal w (Some (JStr p))))
        else Inr False"
  have "\<forall>x\<in>set us. ?f x = Inr (?Q x)"
    using assms(2) login_callback by (metis (no_types, lifting))
  then have f: "js_find ?f us = Inr (find ?Q us)"
    by (rule js_find_pure)
  have t: "truthy user \<and> get_member user ''id'' = Inr (property ''id'' user)"
    if "find ?Q us = Some user" for user
    using find_SomeD [OF that] by (auto simp: property_truthy property_get_member)
  show ?thesis
    using assms(3-) readUsers_stored [OF assms(1)] t
    by (auto simp: post_auth_login_def f Let_def split: option.splits)
qed

text \<open>
  C4, as the code has it. Let the users file hold a list of users (no \<^verbatim>\<open>null\<close> among
  them) and let the login request carry a non-empty string \<open>u\<close> as username and a
  non-empty string \<open>p\<close> as password. If some stored user has the username \<open>u\<close> and the
  password \<open>p\<close>, POST /auth/login answers 200 with \<^verbatim>\<open>{token, username}\<close>, the token signed
  for such a user; otherwise it answers 401 with \<^verbatim>\<open>invalid credentials\<close>. Both files are
  unchanged in either case. (An empty username or password is answered 400 instead.)
\<close>

theorem login_succeeds_iff_credentials_match:
  assumes "stored env (USERS_FILE fs) = Some (JArr us)" and "JNull \<notin> set us"
      and "map_of (body req) ''username'' = Some (JStr u)" and "u \<noteq> ''''"
      and "map_of (body req) ''password'' = Some (JStr p)" and "p \<noteq> ''''"
  shows "((\<exists>x\<in>set us. property ''username'' x = Some (JStr u)
                     \<and> property ''password'' x = Some (JStr p)) \<longrightarrow>
            (\<exists>user\<in>set us. property ''username'' user = Some (JStr u)
                     \<and> property ''password'' user = Some (JStr p)
                     \<and> post_auth_login env req fs
                         = (respond 200
                              (JObj [(''token'', JStr (jwt_sign env (property ''id'' user) (JStr u))),
                                     (''username'', JStr u)]), fs)))
       \<and> (\<not> (\<exists>x\<in>set us. property ''username'' x = Some (JStr u)
                        \<and> property ''password'' x = Some (JStr p)) \<longrightarrow>
            post_auth_login env req fs = (respond 401 (message ''invalid credentials''), fs))"
proof -
  let ?Q = "\<lambda>x. property ''username'' x = Some (JStr u) \<and> property ''password'' x = Some (JStr p)"
  note v = login_valid [OF assms]
  show ?thesis
  proof (cases "find ?Q us")
    case None
    then have "\<not> (\<exists>x\<in>set us. ?Q x)"
      by (simp add: find_None_iff)
    then show ?thesis
      using v None by auto
  next
    case (Some user)
    then have "user \<in> set us \<and> ?Q user"
      by (rule find_SomeD)
    then show ?thesis
      using v Some by auto
  qed
qed

text \<open>
  An example: the users file holds \<^verbatim>\<open>ann\<close> and \<^verbatim>\<open>bob\<close>. Logging in as \<^verbatim>\<open>bob\<close> with his
  password answers 200 with the token; with the password of \<^verbatim>\<open>ann\<close> it answers 401.
\<close>

theorem login_succeeds_iff_credentials_match_witness:
  "post_auth_login example_env
      (anonymous [(''username'', JStr ''bob''), (''password'', JStr ''pw2'')] '''')
      (users_only [ann, bob])
     = (respond 200 (JObj [(''token'', JStr ''signed''), (''username'', JStr ''bob'')]),
        users_only [ann, bob])
   \<and> post_auth_login example_env
      (anonymous [(''username'', JStr ''bob''), (''password'', JStr ''pw1'')] '''')
      (users_only [ann, bob])
     = (respond 401 (message ''invalid credentials''), users_only [ann, bob])"
proof -
  let ?good = "anonymous [(''username'', JStr ''bob''), (''password'', JStr ''pw2'')] ''''"
  let ?bad = "anonymous [(''username'', JStr ''bob''), (''password'', JStr ''pw1'')] ''''"
  have s: "stored example_env (USERS_FILE (users_only [ann, bob])) = Some (JArr [ann, bob])"
    by (simp add: stored_def example_defs)
  have n: "JNull \<notin> set [ann, bob]"
    by (simp add: ann_def bob_def)
  have g: "map_of (body ?good) ''username'' = Some (JStr ''bob'')"
    "map_of (body ?good) ''password'' = Some (JStr ''pw2'')"
    by (simp_all add: anonymous_def)
  have b: "map_of (body ?bad) ''username'' = Some (JStr ''bob'')"
    "map_of (body ?bad) ''password'' = Some (JStr ''pw1'')"
    by (simp_all add: anonymous_def)
  show ?thesis
    using login_succeeds_iff_credentials_match [OF s n g(1) _ g(2)]
      login_succeeds_iff_credentials_match [OF s n b(1) _ b(2)]
    by (simp add: ann_def bob_def example_env_def)
qed

text \<open>
  C4 as stated fails for an empty username: the request has a username and a password,
  no stored user has them, and the answer is 400, not 401.
\<close>

theorem login_with_empty_username_is_400:
  "post_auth_login example_env
      (anonymous [(''username'', JStr ''''), (''password'', JStr ''pw1'')] '''')
      (users_only [ann])
     = (respond 400 (message ''username and password are required''), users_only [ann])"
  by (simp add: post_auth_login_def example_defs)

end
